theory Spec2Isabelle
  imports Main "HOL-Library.Word" "HOL-Library.Monad_Syntax"
begin

unbundle bit_operations_syntax

section \<open>Machine model\<close>

text \<open>
  The allocator of \<^verbatim>\<open>memory.c\<close> keeps its bookkeeping inside the memory it hands out:
  a block header is a \<^verbatim>\<open>struct s_block\<close> stored in front of the payload, and the
  ledger is the linked list of these headers starting at the global \<^verbatim>\<open>base\<close>.
  The model therefore keeps a flat, byte-addressed, little-endian memory (LP64, as
  \<^verbatim>\<open>BLOCK_SIZE 40\<close> presupposes) and reads every field of a header through it.
  Pointers and \<^verbatim>\<open>size_t\<close> are 64-bit words, so pointer and size arithmetic wraps
  as in the program. The memory is total: an access to an unmapped address, a fault
  in the program, is an ordinary read or write in the model. Where a name of the
  program is taken in HOL, the model writes \<open>sz\<close> for \<^verbatim>\<open>size\<close> and \<open>lastb\<close> for
  \<^verbatim>\<open>last\<close>.
\<close>

type_synonym addr = "64 word"
type_synonym size_t = "64 word"
type_synonym memory = "addr \<Rightarrow> 8 word"

definition byte_of :: "64 word \<Rightarrow> nat \<Rightarrow> 8 word" where
  "byte_of v i = ucast (drop_bit (8 * i) v)"

definition byte_of32 :: "32 word \<Rightarrow> nat \<Rightarrow> 8 word" where
  "byte_of32 v i = ucast (drop_bit (8 * i) v)"

definition rd64 :: "memory \<Rightarrow> addr \<Rightarrow> 64 word" where
  "rd64 m a = ucast (m a) OR push_bit 8 (ucast (m (a + 1))) OR push_bit 16 (ucast (m (a + 2)))
     OR push_bit 24 (ucast (m (a + 3))) OR push_bit 32 (ucast (m (a + 4)))
     OR push_bit 40 (ucast (m (a + 5))) OR push_bit 48 (ucast (m (a + 6)))
     OR push_bit 56 (ucast (m (a + 7)))"

definition wr64 :: "memory \<Rightarrow> addr \<Rightarrow> 64 word \<Rightarrow> memory" where
  "wr64 m a v = (\<lambda>x. if x - a < 8 then byte_of v (unat (x - a)) else m x)"

definition rd32 :: "memory \<Rightarrow> addr \<Rightarrow> 32 word" where
  "rd32 m a = ucast (m a) OR push_bit 8 (ucast (m (a + 1))) OR push_bit 16 (ucast (m (a + 2)))
     OR push_bit 24 (ucast (m (a + 3)))"

definition wr32 :: "memory \<Rightarrow> addr \<Rightarrow> 32 word \<Rightarrow> memory" where
  "wr32 m a v = (\<lambda>x. if x - a < 4 then byte_of32 v (unat (x - a)) else m x)"

subsection \<open>Constants and macros of \<^verbatim>\<open>memory.h\<close>\<close>

definition BLOCK_SIZE :: size_t where "BLOCK_SIZE = 40"
definition PAGESIZE :: size_t where "PAGESIZE = 4096"
definition INVALID_ADDR :: int where "INVALID_ADDR = 0"

text \<open>\<^verbatim>\<open>#define align(x) (((((x) - 1) >> 3) << 3) + 8)\<close> on \<^verbatim>\<open>size_t\<close>.\<close>

definition align :: "size_t \<Rightarrow> size_t" where
  "align x = push_bit 3 (drop_bit 3 (x - 1)) + 8"

subsection \<open>The fields of \<^verbatim>\<open>struct s_block\<close>\<close>

text \<open>
  Offsets on LP64: \<^verbatim>\<open>size\<close> 0, \<^verbatim>\<open>next\<close> 8, \<^verbatim>\<open>prev\<close> 16, \<^verbatim>\<open>free\<close> 24 (an \<^verbatim>\<open>int\<close>,
  4 bytes, followed by 4 bytes of padding), \<^verbatim>\<open>ptr\<close> 32, \<^verbatim>\<open>data\<close> 40.
\<close>

definition b_size :: "memory \<Rightarrow> addr \<Rightarrow> size_t" where "b_size m b = rd64 m b"
definition b_next :: "memory \<Rightarrow> addr \<Rightarrow> addr" where "b_next m b = rd64 m (b + 8)"
definition b_prev :: "memory \<Rightarrow> addr \<Rightarrow> addr" where "b_prev m b = rd64 m (b + 16)"
definition b_free :: "memory \<Rightarrow> addr \<Rightarrow> 32 word" where "b_free m b = rd32 m (b + 24)"
definition b_ptr :: "memory \<Rightarrow> addr \<Rightarrow> addr" where "b_ptr m b = rd64 m (b + 32)"
definition b_data :: "addr \<Rightarrow> addr" where "b_data b = b + 40"

definition set_size :: "memory \<Rightarrow> addr \<Rightarrow> size_t \<Rightarrow> memory" where "set_size m b v = wr64 m b v"
definition set_next :: "memory \<Rightarrow> addr \<Rightarrow> addr \<Rightarrow> memory" where "set_next m b v = wr64 m (b + 8) v"
definition set_prev :: "memory \<Rightarrow> addr \<Rightarrow> addr \<Rightarrow> memory" where "set_prev m b v = wr64 m (b + 16) v"
definition set_free :: "memory \<Rightarrow> addr \<Rightarrow> 32 word \<Rightarrow> memory" where "set_free m b v = wr32 m (b + 24) v"
definition set_ptr :: "memory \<Rightarrow> addr \<Rightarrow> addr \<Rightarrow> memory" where "set_ptr m b v = wr64 m (b + 32) v"

subsection \<open>Process state and environment\<close>

datatype alloc_type = ALLOC_TYPE_MALLOC | ALLOC_TYPE_CALLOC | ALLOC_TYPE_REALLOC | ALLOC_TYPE_FREE

text \<open>
  The system calls the allocator makes are recorded with their arguments; the result of
  \<^verbatim>\<open>mmap\<close> is chosen by the operating system, so the state carries the answers the
  system will give to the coming calls (\<open>None\<close> is \<^verbatim>\<open>MAP_FAILED\<close>; an exhausted list
  denies every further request). The global \<^verbatim>\<open>method\<close> is the field \<open>alloc_method\<close>.
\<close>

datatype os_call = Mmap size_t "addr option" | Brk addr

record state =
  mem :: memory
  base :: addr
  alloc_method :: int
  malloc_call :: int
  log_file :: bool
  fopen_ok :: bool
  oplog :: "(string \<times> alloc_type \<times> addr \<times> size_t) list"
  out :: "string list"
  os_mmap :: "addr option list"
  os_calls :: "os_call list"

definition mmap :: "state \<Rightarrow> size_t \<Rightarrow> addr option \<times> state" where
  "mmap st len =
     (case os_mmap st of
        [] \<Rightarrow> (None, st\<lparr>os_calls := os_calls st @ [Mmap len None]\<rparr>)
      | r # rs \<Rightarrow> (r, st\<lparr>os_mmap := rs, os_calls := os_calls st @ [Mmap len r]\<rparr>))"

definition brk :: "state \<Rightarrow> addr \<Rightarrow> state" where
  "brk st a = st\<lparr>os_calls := os_calls st @ [Brk a]\<rparr>"

text \<open>
  \<^verbatim>\<open>log_handler\<close> opens \<^verbatim>\<open>log.txt\<close> on first use and appends one record; when the
  file cannot be opened it reports on the error stream and returns. The time stamp of
  the record is left out.
\<close>

definition log_handler :: "state \<Rightarrow> string \<Rightarrow> alloc_type \<Rightarrow> addr \<Rightarrow> size_t \<Rightarrow> state" where
  "log_handler st func_name type p sz =
     (let st1 = (if \<not> log_file st then st\<lparr>log_file := fopen_ok st\<rparr> else st)
      in if \<not> log_file st1
         then st1\<lparr>out := out st1 @ [''Error al abrir el archivo de log'']\<rparr>
         else st1\<lparr>oplog := oplog st1 @ [(func_name, type, p, sz)]\<rparr>)"

section \<open>The allocator\<close>

subsection \<open>\<^verbatim>\<open>find_block\<close>\<close>

partial_function (option) first_fit :: "memory \<Rightarrow> size_t \<Rightarrow> addr \<Rightarrow> addr \<Rightarrow> (addr \<times> addr) option" where
  "first_fit m sz b lastb =
     (if b \<noteq> 0 \<and> \<not> (b_free m b \<noteq> 0 \<and> sz \<le> b_size m b)
      then first_fit m sz (b_next m b) b
      else Some (b, lastb))"

partial_function (option) best_fit ::
  "memory \<Rightarrow> size_t \<Rightarrow> addr \<Rightarrow> addr \<Rightarrow> size_t \<Rightarrow> addr \<Rightarrow> (addr \<times> addr) option" where
  "best_fit m sz b lastb dif best =
     (if b \<noteq> 0
      then if b_free m b \<noteq> 0
           then if b_size m b = sz then Some (b, lastb)
                else if sz < b_size m b \<and> b_size m b - sz < dif
                     then best_fit m sz (b_next m b) b (b_size m b - sz) b
                     else best_fit m sz (b_next m b) b dif best
           else best_fit m sz (b_next m b) b dif best
      else Some (best, lastb))"

partial_function (option) worst_fit ::
  "memory \<Rightarrow> size_t \<Rightarrow> addr \<Rightarrow> addr \<Rightarrow> size_t \<Rightarrow> addr \<Rightarrow> (addr \<times> addr) option" where
  "worst_fit m sz b lastb dif best =
     (if b \<noteq> 0
      then if b_free m b \<noteq> 0
           then if b_size m b = sz then Some (b, lastb)
                else if sz < b_size m b \<and> dif < b_size m b - sz
                     then worst_fit m sz (b_next m b) b (b_size m b - sz) b
                     else worst_fit m sz (b_next m b) b dif best
           else worst_fit m sz (b_next m b) b dif best
      else Some (best, lastb))"

text \<open>
  \<^verbatim>\<open>find_block(&last, sz)\<close> returns the block found (0 is \<^verbatim>\<open>NULL\<close>) together with
  the final value of \<^verbatim>\<open>*last\<close>. \<open>None\<close> is a walk that never ends.
\<close>

definition find_block :: "state \<Rightarrow> addr \<Rightarrow> size_t \<Rightarrow> (addr \<times> addr) option" where
  "find_block st lastb sz =
     (if alloc_method st = 0 then first_fit (mem st) sz (base st) lastb
      else if alloc_method st = 1 then best_fit (mem st) sz (base st) lastb PAGESIZE 0
      else if alloc_method st = 2 then worst_fit (mem st) sz (base st) lastb 0 0
      else Some (0, lastb))"

subsection \<open>\<^verbatim>\<open>split_block\<close>, \<^verbatim>\<open>copy_block\<close>, \<^verbatim>\<open>get_block\<close>, \<^verbatim>\<open>valid_addr\<close>, \<^verbatim>\<open>fusion\<close>\<close>

definition split_block :: "memory \<Rightarrow> addr \<Rightarrow> size_t \<Rightarrow> memory" where
  "split_block m b s =
     (if b_size m b \<le> s + BLOCK_SIZE then m
      else let new = b_data b + s;
               m1 = set_size m new (b_size m b - s - BLOCK_SIZE);
               m2 = set_next m1 new (b_next m1 b);
               m3 = set_free m2 new 1;
               m4 = set_size m3 b s
           in set_next m4 b new)"

partial_function (option) copy_loop ::
  "memory \<Rightarrow> addr \<Rightarrow> addr \<Rightarrow> addr \<Rightarrow> addr \<Rightarrow> size_t \<Rightarrow> memory option" where
  "copy_loop m src dst sdata ddata i =
     (if i * 4 < b_size m src \<and> i * 4 < b_size m dst
      then copy_loop (wr32 m (ddata + 4 * i) (rd32 m (sdata + 4 * i))) src dst sdata ddata (i + 1)
      else Some m)"

definition copy_block :: "memory \<Rightarrow> addr \<Rightarrow> addr \<Rightarrow> memory option" where
  "copy_block m src dst =
     (if b_ptr m src = 0 \<or> b_ptr m dst = 0 then Some m
      else copy_loop m src dst (b_ptr m src) (b_ptr m dst) 0)"

definition get_block :: "addr \<Rightarrow> addr" where
  "get_block p = p - BLOCK_SIZE"

partial_function (option) valid_walk :: "memory \<Rightarrow> addr \<Rightarrow> addr \<Rightarrow> addr \<Rightarrow> int option" where
  "valid_walk m p b current =
     (if current \<noteq> 0
      then if current = b then Some (if b_ptr m current = p then 1 else 0)
           else valid_walk m p b (b_next m current)
      else Some INVALID_ADDR)"

definition valid_addr :: "state \<Rightarrow> addr \<Rightarrow> int option" where
  "valid_addr st p =
     (if p = 0 \<or> base st = 0 then Some 0
      else valid_walk (mem st) p (get_block p) (base st))"

partial_function (option) fusion_loop :: "memory \<Rightarrow> addr \<Rightarrow> memory option" where
  "fusion_loop m b =
     (if b_next m b \<noteq> 0 \<and> b_free m (b_next m b) \<noteq> 0
      then if b_next m b = 0 \<or> b_next m (b_next m b) = 0 then Some m
           else let m1 = set_size m b (b_size m b + b_size m (b_next m b));
                    m2 = set_next m1 b (b_next m1 (b_next m1 b));
                    m3 = (if b_next m2 b \<noteq> 0 then set_prev m2 (b_next m2 b) b else m2)
                in fusion_loop m3 b
      else Some m)"

text \<open>\<^verbatim>\<open>fusion\<close> returns its argument; the model returns it with the memory.\<close>

definition fusion :: "memory \<Rightarrow> addr \<Rightarrow> (addr \<times> memory) option" where
  "fusion m b = (if b = 0 then Some (0, m) else map_option (Pair b) (fusion_loop m b))"

subsection \<open>\<^verbatim>\<open>extend_heap\<close>, policy selection\<close>

definition extend_heap :: "state \<Rightarrow> addr \<Rightarrow> size_t \<Rightarrow> addr \<times> state" where
  "extend_heap st lastb s =
     (case mmap st s of
        (None, st1) \<Rightarrow> (0, st1)
      | (Some b, st1) \<Rightarrow>
          let m1 = set_size (mem st1) b s;
              m2 = set_next m1 b 0;
              m3 = set_prev m2 b lastb;
              m4 = set_ptr m3 b (b_data b);
              m5 = (if lastb \<noteq> 0 then set_next m4 lastb b else m4);
              m6 = set_free m5 b 0
          in (b, st1\<lparr>mem := m6\<rparr>))"

definition get_method :: "state \<Rightarrow> int" where
  "get_method st = alloc_method st"

definition set_method :: "state \<Rightarrow> int \<Rightarrow> state" where
  "set_method st m = st\<lparr>alloc_method := m\<rparr>"

definition malloc_control :: "state \<Rightarrow> int \<Rightarrow> state" where
  "malloc_control st m =
     (if m = 0 then set_method st 0
      else if m = 1 then set_method st 1
      else if m = 2 then set_method st 2
      else st\<lparr>out := out st @ [''Error: invalid method'']\<rparr>)"

subsection \<open>\<^verbatim>\<open>my_malloc\<close>, \<^verbatim>\<open>my_free\<close>, \<^verbatim>\<open>my_calloc\<close>, \<^verbatim>\<open>my_realloc\<close>\<close>

text \<open>The common tail of \<^verbatim>\<open>my_malloc\<close>: log unless called from a wrapper, clear the flag.\<close>

definition malloc_return :: "state \<Rightarrow> addr \<Rightarrow> size_t \<Rightarrow> (addr \<times> state) option" where
  "malloc_return st b sz =
     (let st1 = (if malloc_call st = 0
                 then log_handler st ''malloc'' ALLOC_TYPE_MALLOC (b_data b) sz else st)
      in Some (b_data b, st1\<lparr>malloc_call := 0\<rparr>))"

definition my_malloc :: "state \<Rightarrow> size_t \<Rightarrow> (addr \<times> state) option" where
  "my_malloc st sz =
     (let s = align sz in
      if base st \<noteq> 0
      then do {
        (b, lastb) \<leftarrow> find_block st (base st) s;
        if b \<noteq> 0
        then let m1 = (if BLOCK_SIZE + 4 \<le> b_size (mem st) b - s
                       then split_block (mem st) b s else mem st);
                 m2 = set_free m1 b 0
             in malloc_return (st\<lparr>mem := m2\<rparr>) b sz
        else case extend_heap st lastb s of
               (b, st1) \<Rightarrow> if b = 0 then Some (0, st1) else malloc_return st1 b sz
      }
      else case extend_heap st 0 s of
             (b, st1) \<Rightarrow> if b = 0 then Some (0, st1)
                         else malloc_return (st1\<lparr>base := b\<rparr>) b sz)"

definition my_free :: "state \<Rightarrow> addr \<Rightarrow> state option" where
  "my_free st p = do {
     v \<leftarrow> valid_addr st p;
     if v \<noteq> 0
     then do {
       let b = get_block p;
       (_, m2) \<leftarrow> fusion (set_free (mem st) b 1) b;
       let st1 = st\<lparr>mem := m2\<rparr>;
       let st2 = (if b_next m2 b = 0
                  then let st3 = (if b_prev m2 b = 0 then st1\<lparr>base := 0\<rparr>
                                  else st1\<lparr>mem := set_next m2 (b_prev m2 b) 0\<rparr>)
                       in brk st3 (b + b_size (mem st3) b)
                  else st1);
       Some (log_handler st2 ''free'' ALLOC_TYPE_FREE p 0)
     }
     else Some st
   }"

text \<open>
  The clearing loop of \<^verbatim>\<open>my_calloc\<close>: \<^verbatim>\<open>new\<close> is a \<^verbatim>\<open>size_t*\<close>, so step \<open>i\<close>
  stores eight zero bytes at \<open>new + 8 * i\<close>.
\<close>

definition zero_fill :: "memory \<Rightarrow> addr \<Rightarrow> size_t \<Rightarrow> memory" where
  "zero_fill m new s4 = fold (\<lambda>i m'. wr64 m' (new + 8 * of_nat i) 0) [0..<unat s4] m"

definition my_calloc :: "state \<Rightarrow> size_t \<Rightarrow> size_t \<Rightarrow> (addr \<times> state) option" where
  "my_calloc st number sz =
     (if number = 0 \<or> sz = 0 then Some (0, st)
      else do {
        (new, st1) \<leftarrow> my_malloc (st\<lparr>malloc_call := 1\<rparr>) (number * sz);
        let st2 = (if new \<noteq> 0
                   then st1\<lparr>mem := zero_fill (mem st1) new (push_bit 2 (align (number * sz)))\<rparr>
                   else st1);
        Some (new, log_handler st2 ''calloc'' ALLOC_TYPE_CALLOC new 0)
      })"

definition my_realloc :: "state \<Rightarrow> addr \<Rightarrow> size_t \<Rightarrow> (addr \<times> state) option" where
  "my_realloc st0 p sz =
     (let st = st0\<lparr>malloc_call := 1\<rparr> in
      if p = 0
      then do {
        (newp, st1) \<leftarrow> my_malloc st sz;
        Some (newp, log_handler st1 ''realloc'' ALLOC_TYPE_REALLOC newp 0)
      }
      else do {
        v \<leftarrow> valid_addr st p;
        if v \<noteq> 0
        then let s = align sz; b = get_block p in
          if s \<le> b_size (mem st) b
          then let m1 = (if BLOCK_SIZE + 4 \<le> b_size (mem st) b - s
                         then split_block (mem st) b s else mem st)
               in Some (p, log_handler (st\<lparr>mem := m1\<rparr>) ''realloc'' ALLOC_TYPE_REALLOC p 0)
          else if b_next (mem st) b \<noteq> 0 \<and> b_free (mem st) (b_next (mem st) b) \<noteq> 0
                  \<and> s \<le> b_size (mem st) b + BLOCK_SIZE + b_size (mem st) (b_next (mem st) b)
          then do {
            (_, m1) \<leftarrow> fusion (mem st) b;
            let m2 = (if BLOCK_SIZE + 4 \<le> b_size m1 b - s then split_block m1 b s else m1);
            Some (p, log_handler (st\<lparr>mem := m2\<rparr>) ''realloc'' ALLOC_TYPE_REALLOC p 0)
          }
          else do {
            (newp, st1) \<leftarrow> my_malloc st s;
            if newp = 0 then Some (0, st1)
            else do {
              m1 \<leftarrow> copy_block (mem st1) b (get_block newp);
              st2 \<leftarrow> my_free (st1\<lparr>mem := m1\<rparr>) p;
              Some (newp, log_handler st2 ''realloc'' ALLOC_TYPE_REALLOC newp 0)
            }
          }
        else Some (0, st)
      })"

subsection \<open>The consistency scan of \<^verbatim>\<open>check_heap\<close>\<close>

text \<open>
  After printing the fields of the block it is given, \<^verbatim>\<open>check_heap\<close> walks the ledger
  and reports two anomalies: a free block whose successor is free, and a block of size
  zero (\<^verbatim>\<open>size <= 0\<close> on a \<^verbatim>\<open>size_t\<close>). The model keeps this walk and returns the
  reports in order.
\<close>

datatype anomaly = Adjacent_free addr addr | Invalid_size addr

partial_function (option) check_walk :: "memory \<Rightarrow> addr \<Rightarrow> anomaly list \<Rightarrow> anomaly list option" where
  "check_walk m current msgs =
     (if current \<noteq> 0
      then if b_free m current \<noteq> 0 \<and> b_next m current \<noteq> 0 \<and> b_free m (b_next m current) \<noteq> 0
           then if b_size m current \<le> 0
                then check_walk m (b_next m current)
                       (msgs @ [Adjacent_free current (b_next m current), Invalid_size current])
                else check_walk m (b_next m current)
                       (msgs @ [Adjacent_free current (b_next m current)])
           else if b_size m current \<le> 0
                then check_walk m (b_next m current) (msgs @ [Invalid_size current])
                else check_walk m (b_next m current) msgs
      else Some msgs)"

definition check_heap_scan :: "state \<Rightarrow> anomaly list option" where
  "check_heap_scan st = check_walk (mem st) (base st) []"

text \<open>
  \<^verbatim>\<open>external_frag\<close> accumulates the sizes in \<^verbatim>\<open>double\<close> and returns their quotient
  as a \<^verbatim>\<open>double\<close>; \<^verbatim>\<open>memory_usage\<close> and \<^verbatim>\<open>mem_trim\<close> are reporting and teardown.
  They are not part of this model.
\<close>

section \<open>Call sequences and the ledger\<close>

text \<open>
  A client of the library issues a sequence of public calls. \<open>run\<close> performs them in
  order and collects the returned addresses (0 for the calls that return nothing).
\<close>

datatype call = Allocate size_t | ZeroAllocate size_t size_t | Resize addr size_t | Release addr
  | SetPolicy int

fun step :: "state \<Rightarrow> call \<Rightarrow> (addr \<times> state) option" where
  "step st (Allocate n) = my_malloc st n"
| "step st (ZeroAllocate n sz) = my_calloc st n sz"
| "step st (Resize p n) = my_realloc st p n"
| "step st (Release p) = map_option (Pair 0) (my_free st p)"
| "step st (SetPolicy m) = Some (0, malloc_control st m)"

fun run :: "state \<Rightarrow> call list \<Rightarrow> (addr list \<times> state) option" where
  "run st [] = Some ([], st)"
| "run st (c # cs) = do { (r, st1) \<leftarrow> step st c; (rs, st2) \<leftarrow> run st1 cs; Some (r # rs, st2) }"

text \<open>
  The state at program start: \<^verbatim>\<open>base = NULL\<close>, \<^verbatim>\<open>method = 0\<close>, \<^verbatim>\<open>malloc_call = 0\<close>,
  \<^verbatim>\<open>log_file = NULL\<close>; memory reads as zero, as anonymous mappings do; \<open>rs\<close> are the
  answers the system gives to the successive \<^verbatim>\<open>mmap\<close> calls.
\<close>

definition boot :: "addr option list \<Rightarrow> state" where
  "boot rs = \<lparr>mem = (\<lambda>_. 0), base = 0, alloc_method = 0, malloc_call = 0, log_file = False,
     fopen_ok = True, oplog = [], out = [], os_mmap = rs, os_calls = []\<rparr>"

definition after :: "addr option list \<Rightarrow> call list \<Rightarrow> state" where
  "after rs cs = (case run (boot rs) cs of Some (_, st) \<Rightarrow> st | None \<Rightarrow> boot rs)"

text \<open>
  \<open>path m a bs\<close>: following \<^verbatim>\<open>next\<close> from \<open>a\<close> visits exactly the headers \<open>bs\<close> and
  then reaches \<^verbatim>\<open>NULL\<close>. The ledger of a state is the path from \<^verbatim>\<open>base\<close>.
\<close>

fun path :: "memory \<Rightarrow> addr \<Rightarrow> addr list \<Rightarrow> bool" where
  "path m a [] = (a = 0)"
| "path m a (b # bs) = (a \<noteq> 0 \<and> a = b \<and> path m (b_next m b) bs)"

definition ledger :: "state \<Rightarrow> addr list \<Rightarrow> bool" where
  "ledger st bs = path (mem st) (base st) bs"

subsection \<open>States used as concrete inputs\<close>

text \<open>Two live blocks, each from its own mapping, and no mapping left to give.\<close>

definition two_blocks :: state where
  "two_blocks = after [Some 0x10000, Some 0x20000] [Allocate 8, Allocate 8]"

text \<open>Two blocks were allocated and the second one, the tail, was released.\<close>

definition tail_released :: state where
  "tail_released = after [Some 0x10000, Some 0x20000] [Allocate 8, Allocate 8, Release 0x20028]"

text \<open>
  A block of 100 bytes and a block of 8 bytes were allocated and the first released;
  then 8 bytes were allocated, which splits the first block; then 8 bytes again, which
  reuses the block that the split carved out.
\<close>

definition first_released :: state where
  "first_released = after [Some 0x10000, Some 0x20000] [Allocate 100, Allocate 8, Release 0x10028]"

definition split_once :: state where
  "split_once = after [Some 0x10000, Some 0x20000]
     [Allocate 100, Allocate 8, Release 0x10028, Allocate 8]"

definition split_reused :: state where
  "split_reused = after [Some 0x10000, Some 0x20000]
     [Allocate 100, Allocate 8, Release 0x10028, Allocate 8, Allocate 8]"

section \<open>Reading and writing memory\<close>

lemma bytes64:
  "ucast (byte_of v 0) OR push_bit 8 (ucast (byte_of v 1)) OR push_bit 16 (ucast (byte_of v 2))
     OR push_bit 24 (ucast (byte_of v 3)) OR push_bit 32 (ucast (byte_of v 4))
     OR push_bit 40 (ucast (byte_of v 5)) OR push_bit 48 (ucast (byte_of v 6))
     OR push_bit 56 (ucast (byte_of v 7)) = (v :: 64 word)" (is "?l = v")
proof (rule bit_word_eqI)
  fix n :: nat
  assume "n < LENGTH(64)"
  then consider "n < 8" | "8 \<le> n \<and> n < 16" | "16 \<le> n \<and> n < 24" | "24 \<le> n \<and> n < 32"
    | "32 \<le> n \<and> n < 40" | "40 \<le> n \<and> n < 48" | "48 \<le> n \<and> n < 56" | "56 \<le> n \<and> n < 64"
    by (simp; linarith)
  then show "bit ?l n = bit v n"
    by cases (auto simp: bit_simps byte_of_def)
qed

lemma bytes32:
  "ucast (byte_of32 v 0) OR push_bit 8 (ucast (byte_of32 v 1))
     OR push_bit 16 (ucast (byte_of32 v 2)) OR push_bit 24 (ucast (byte_of32 v 3)) = (v :: 32 word)"
  (is "?l = v")
proof (rule bit_word_eqI)
  fix n :: nat
  assume "n < LENGTH(32)"
  then consider "n < 8" | "8 \<le> n \<and> n < 16" | "16 \<le> n \<and> n < 24" | "24 \<le> n \<and> n < 32"
    by (simp; linarith)
  then show "bit ?l n = bit v n"
    by cases (auto simp: bit_simps byte_of32_def)
qed

text \<open>Two byte ranges that are far enough apart in both directions do not meet.\<close>

lemma apart: "w \<le> b - a \<Longrightarrow> r \<le> a - b \<Longrightarrow> k < r \<Longrightarrow> \<not> ((b + k) - a < (w :: 64 word))"
  by unat_arith

lemma rd64_wr64_same: "rd64 (wr64 m a v) a = v"
  using bytes64[of v] by (simp add: rd64_def wr64_def)

lemma rd32_wr32_same: "rd32 (wr32 m a v) a = v"
  using bytes32[of v] by (simp add: rd32_def wr32_def)

lemma rd64_wr64_other: "8 \<le> b - a \<Longrightarrow> 8 \<le> a - b \<Longrightarrow> rd64 (wr64 m a v) b = rd64 m b"
  using apart[of 8 b a 8 0] apart[of 8 b a 8 1] apart[of 8 b a 8 2] apart[of 8 b a 8 3]
    apart[of 8 b a 8 4] apart[of 8 b a 8 5] apart[of 8 b a 8 6] apart[of 8 b a 8 7]
  by (simp add: rd64_def wr64_def)

lemma rd64_wr32_other: "4 \<le> b - a \<Longrightarrow> 8 \<le> a - b \<Longrightarrow> rd64 (wr32 m a v) b = rd64 m b"
  using apart[of 4 b a 8 0] apart[of 4 b a 8 1] apart[of 4 b a 8 2] apart[of 4 b a 8 3]
    apart[of 4 b a 8 4] apart[of 4 b a 8 5] apart[of 4 b a 8 6] apart[of 4 b a 8 7]
  by (simp add: rd64_def wr32_def)

lemma rd32_wr64_other: "8 \<le> b - a \<Longrightarrow> 4 \<le> a - b \<Longrightarrow> rd32 (wr64 m a v) b = rd32 m b"
  using apart[of 8 b a 4 0] apart[of 8 b a 4 1] apart[of 8 b a 4 2] apart[of 8 b a 4 3]
  by (simp add: rd32_def wr64_def)

lemma rd32_wr32_other: "4 \<le> b - a \<Longrightarrow> 4 \<le> a - b \<Longrightarrow> rd32 (wr32 m a v) b = rd32 m b"
  using apart[of 4 b a 4 0] apart[of 4 b a 4 1] apart[of 4 b a 4 2] apart[of 4 b a 4 3]
  by (simp add: rd32_def wr32_def)

text \<open>A 4-byte read inside an 8-byte store sees the matching half of the value.\<close>

lemma rd32_wr64_lo: "rd32 (wr64 m a v) a = ucast v"
proof -
  have "byte_of32 (ucast v) i = byte_of v i" if "i < 4" for i
    using that by (auto simp: byte_of32_def byte_of_def bit_simps intro!: bit_word_eqI)
  then show ?thesis
    using bytes32[of "ucast v"] by (simp add: rd32_def wr64_def)
qed

lemma rd32_wr64_hi: "rd32 (wr64 m a v) (a + 4) = ucast (drop_bit 32 v)"
proof -
  have "byte_of32 (ucast (drop_bit 32 v)) i = byte_of v (i + 4)" if "i < 4" for i
    using that by (auto simp: byte_of32_def byte_of_def bit_simps ac_simps intro!: bit_word_eqI)
  then have "byte_of32 (ucast (drop_bit 32 v)) 0 = byte_of v 4"
    "byte_of32 (ucast (drop_bit 32 v)) 1 = byte_of v 5"
    "byte_of32 (ucast (drop_bit 32 v)) 2 = byte_of v 6"
    "byte_of32 (ucast (drop_bit 32 v)) 3 = byte_of v 7"
    by (simp_all add: numeral_eq_Suc)
  then show ?thesis
    using bytes32[of "ucast (drop_bit 32 v)"] by (simp add: rd32_def wr64_def)
qed

lemma rd64_zero: "rd64 (\<lambda>_. 0) a = 0"
  by (simp add: rd64_def)

lemma rd32_zero: "rd32 (\<lambda>_. 0) a = 0"
  by (simp add: rd32_def)

text \<open>The same for two accesses given by their offsets from a common address.\<close>

lemma off_apart:
  fixes i j :: "64 word"
  assumes "(unat i + w \<le> unat j \<and> unat j + r \<le> 2 ^ 64) \<or> (unat j + r \<le> unat i \<and> unat i + w \<le> 2 ^ 64)"
    and "0 < w" "0 < r"
  shows "w \<le> unat (j - i) \<and> r \<le> unat (i - j)"
  using assms by (auto simp: unat_sub_if_size word_size)

lemma rd64_wr64_off:
  assumes "(unat i + 8 \<le> unat j \<and> unat j + 8 \<le> 2 ^ 64) \<or> (unat j + 8 \<le> unat i \<and> unat i + 8 \<le> 2 ^ 64)"
  shows "rd64 (wr64 m (a + i) v) (a + j) = rd64 m (a + j)"
  using off_apart[OF assms] by (intro rd64_wr64_other) (simp_all add: word_le_nat_alt)

lemma rd64_wr32_off:
  assumes "(unat i + 4 \<le> unat j \<and> unat j + 8 \<le> 2 ^ 64) \<or> (unat j + 8 \<le> unat i \<and> unat i + 4 \<le> 2 ^ 64)"
  shows "rd64 (wr32 m (a + i) v) (a + j) = rd64 m (a + j)"
  using off_apart[OF assms] by (intro rd64_wr32_other) (simp_all add: word_le_nat_alt)

lemma rd32_wr64_off:
  assumes "(unat i + 8 \<le> unat j \<and> unat j + 4 \<le> 2 ^ 64) \<or> (unat j + 4 \<le> unat i \<and> unat i + 8 \<le> 2 ^ 64)"
  shows "rd32 (wr64 m (a + i) v) (a + j) = rd32 m (a + j)"
  using off_apart[OF assms] by (intro rd32_wr64_other) (simp_all add: word_le_nat_alt)

lemma rd32_wr32_off:
  assumes "(unat i + 4 \<le> unat j \<and> unat j + 4 \<le> 2 ^ 64) \<or> (unat j + 4 \<le> unat i \<and> unat i + 4 \<le> 2 ^ 64)"
  shows "rd32 (wr32 m (a + i) v) (a + j) = rd32 m (a + j)"
  using off_apart[OF assms] by (intro rd32_wr32_other) (simp_all add: word_le_nat_alt)

lemma unat_off:
  fixes s :: "64 word"
  assumes "unat s + 84 \<le> 2 ^ 64"
  shows "unat (s + 40) = unat s + 40" "unat (s + 48) = unat s + 48"
    "unat (s + 64) = unat s + 64" "unat (s + 72) = unat s + 72"
  using assms by (simp_all add: unat_add_lem[THEN iffD1])


lemmas off0 = rd64_wr64_off[of 0, simplified] rd32_wr64_off[of 0, simplified]
  rd64_wr32_off[of 0, simplified] rd32_wr32_off[of 0, simplified]

lemmas mem_simps = rd64_wr64_same rd32_wr32_same rd64_wr64_other rd64_wr32_other rd32_wr64_other
  rd32_wr32_other rd32_wr64_lo rd32_wr64_hi rd64_zero rd32_zero

lemmas field_defs = b_size_def b_next_def b_prev_def b_free_def b_ptr_def b_data_def
  set_size_def set_next_def set_prev_def set_free_def set_ptr_def BLOCK_SIZE_def PAGESIZE_def
  INVALID_ADDR_def get_block_def

lemmas op_defs = my_malloc_def my_free_def my_calloc_def my_realloc_def malloc_return_def
  extend_heap_def mmap_def brk_def log_handler_def find_block_def split_block_def copy_block_def
  valid_addr_def fusion_def malloc_control_def set_method_def boot_def align_def after_def
  ledger_def

lemmas loop_simps = first_fit.simps best_fit.simps worst_fit.simps valid_walk.simps
  fusion_loop.simps copy_loop.simps

section \<open>Address resolution on a well-formed ledger\<close>

lemma path_null: "path m 0 bs \<longleftrightarrow> bs = []"
  by (cases bs) auto

lemma valid_walk_path:
  "path m cur bs \<Longrightarrow>
   valid_walk m p b cur = Some (if b \<in> set bs \<and> b_ptr m b = p then 1 else 0)"
proof (induction bs arbitrary: cur)
  case Nil
  then show ?case by (subst valid_walk.simps) (simp add: INVALID_ADDR_def)
next
  case (Cons x xs)
  then show ?case by (subst valid_walk.simps) auto
qed

lemma valid_addr_ledger:
  "ledger st bs \<Longrightarrow>
   valid_addr st p =
     Some (if p \<noteq> 0 \<and> get_block p \<in> set bs \<and> b_ptr (mem st) (get_block p) = p then 1 else 0)"
  by (auto simp: ledger_def valid_addr_def valid_walk_path path_null)

lemma ledger_base: "ledger st bs \<Longrightarrow> b \<in> set bs \<Longrightarrow> base st \<noteq> 0"
  by (cases bs) (auto simp: ledger_def)

lemma find_block_flag [simp]: "find_block (st\<lparr>malloc_call := c\<rparr>) l s = find_block st l s"
  by (simp add: find_block_def)

lemma ledger_flag [simp]: "ledger (st\<lparr>malloc_call := c\<rparr>) bs = ledger st bs"
  by (simp add: ledger_def)

lemma valid_addr_frame:
  "mem st' = mem st \<Longrightarrow> base st' = base st \<Longrightarrow> valid_addr st' p = valid_addr st p"
  by (simp add: valid_addr_def)


subsection \<open>\<^verbatim>\<open>align\<close> is idempotent\<close>

lemma seven_mask: "(7 :: 64 word) = mask 3"
  by (simp add: mask_eq_exp_minus_1)

lemma push_bit_plus_seven: "push_bit 3 (w :: 64 word) + 7 = push_bit 3 w OR mask 3"
  unfolding seven_mask by (rule disjunctive_add) (auto simp: bit_simps)

lemma round_down_after_seven:
  "push_bit 3 (drop_bit 3 (7 + push_bit 3 (w :: 64 word))) = push_bit 3 w"
  unfolding push_bit_plus_seven add.commute[of 7] by (rule bit_word_eqI) (auto simp: bit_simps)

lemma align_idem: "align (align x) = align x"
  by (simp add: align_def round_down_after_seven)

section \<open>Searching and splitting\<close>

text \<open>A block returned by the search has room for the request, under each policy.\<close>

lemma first_fit_fits:
  assumes "first_fit m sz b l = Some r"
  shows "fst r \<noteq> 0 \<longrightarrow> sz \<le> b_size m (fst r)"
  by (rule first_fit.raw_induct[where P = "\<lambda>m sz b l r. fst r \<noteq> 0 \<longrightarrow> sz \<le> b_size m (fst r)", OF _ assms])
     (auto split: if_splits)

lemma best_fit_fits:
  assumes "best_fit m sz b l dif best = Some r"
  shows "(best \<noteq> 0 \<longrightarrow> sz \<le> b_size m best) \<longrightarrow> fst r \<noteq> 0 \<longrightarrow> sz \<le> b_size m (fst r)"
  by (rule best_fit.raw_induct[where P = "\<lambda>m sz b l dif best r.
        (best \<noteq> 0 \<longrightarrow> sz \<le> b_size m best) \<longrightarrow> fst r \<noteq> 0 \<longrightarrow> sz \<le> b_size m (fst r)", OF _ assms])
     (auto split: if_splits)

lemma worst_fit_fits:
  assumes "worst_fit m sz b l dif best = Some r"
  shows "(best \<noteq> 0 \<longrightarrow> sz \<le> b_size m best) \<longrightarrow> fst r \<noteq> 0 \<longrightarrow> sz \<le> b_size m (fst r)"
  by (rule worst_fit.raw_induct[where P = "\<lambda>m sz b l dif best r.
        (best \<noteq> 0 \<longrightarrow> sz \<le> b_size m best) \<longrightarrow> fst r \<noteq> 0 \<longrightarrow> sz \<le> b_size m (fst r)", OF _ assms])
     (auto split: if_splits)

lemma find_block_fits:
  "find_block st l sz = Some (b, l') \<Longrightarrow> b \<noteq> 0 \<Longrightarrow> sz \<le> b_size (mem st) b"
  using first_fit_fits[of "mem st" sz "base st" l "(b, l')"]
    best_fit_fits[of "mem st" sz "base st" l PAGESIZE 0 "(b, l')"]
    worst_fit_fits[of "mem st" sz "base st" l 0 0 "(b, l')"]
  by (auto simp: find_block_def split: if_splits)

text \<open>
  What \<^verbatim>\<open>split_block\<close> writes when it splits a block that lies inside the address
  space: the successor link of the block, the free flag of the carved block. It writes
  neither pointer field: that of the carved block keeps the bytes the payload held.
\<close>

lemma split_block_new:
  assumes fit: "s \<le> b_size m b" and room: "BLOCK_SIZE + 4 \<le> b_size m b - s"
    and ext: "unat b + 40 + unat (b_size m b) \<le> 2 ^ 64"
  shows "b_next (split_block m b s) b = b_data b + s"
    and "b_free (split_block m b s) (b_data b + s) = 1"
    and "b_ptr (split_block m b s) (b_data b + s) = b_ptr m (b_data b + s)"
    and "b_ptr (split_block m b s) b = b_ptr m b"
proof -
  have n: "unat s + 44 \<le> unat (b_size m b)"
    using fit room unfolding BLOCK_SIZE_def by unat_arith
  then have bound: "unat s + 84 \<le> 2 ^ 64"
    using ext by simp
  have guard: "\<not> b_size m b \<le> s + BLOCK_SIZE"
    using n bound unfolding BLOCK_SIZE_def by unat_arith
  note u = unat_off[OF bound]
  define m1 where "m1 = wr64 m (b + (s + 40)) (b_size m b - s - BLOCK_SIZE)"
  define m2 where "m2 = wr64 m1 (b + (s + 48)) (rd64 m1 (b + 8))"
  define m3 where "m3 = wr32 m2 (b + (s + 64)) 1"
  define m4 where "m4 = wr64 m3 b s"
  define m5 where "m5 = wr64 m4 (b + 8) (b + (s + 40))"
  have sp: "split_block m b s = m5"
    using guard
    by (simp add: split_block_def Let_def b_size_def b_next_def b_data_def set_size_def
        set_next_def set_free_def m5_def m4_def m3_def m2_def m1_def ac_simps)
  have a: "b_data b + s = b + (s + 40)" "b_data b + s + 24 = b + (s + 64)"
    "b_data b + s + 32 = b + (s + 72)"
    by (simp_all add: b_data_def)
  show "b_next (split_block m b s) b = b_data b + s"
    by (simp add: sp b_data_def b_next_def m5_def rd64_wr64_same ac_simps)
  have "rd32 m5 (b + (s + 64)) = rd32 m4 (b + (s + 64))"
    unfolding m5_def by (rule rd32_wr64_off) (use bound in \<open>simp add: u\<close>)
  also have "\<dots> = rd32 m3 (b + (s + 64))"
    unfolding m4_def by (rule off0) (use bound in \<open>simp add: u\<close>)
  also have "\<dots> = 1"
    unfolding m3_def by (rule rd32_wr32_same)
  finally show "b_free (split_block m b s) (b_data b + s) = 1"
    by (simp add: sp b_data_def b_free_def ac_simps)
  have "rd64 m5 (b + (s + 72)) = rd64 m4 (b + (s + 72))"
    unfolding m5_def by (rule rd64_wr64_off) (use bound in \<open>simp add: u\<close>)
  also have "\<dots> = rd64 m3 (b + (s + 72))"
    unfolding m4_def by (rule off0) (use bound in \<open>simp add: u\<close>)
  also have "\<dots> = rd64 m2 (b + (s + 72))"
    unfolding m3_def by (rule rd64_wr32_off) (use bound in \<open>simp add: u\<close>)
  also have "\<dots> = rd64 m1 (b + (s + 72))"
    unfolding m2_def by (rule rd64_wr64_off) (use bound in \<open>simp add: u\<close>)
  also have "\<dots> = rd64 m (b + (s + 72))"
    unfolding m1_def by (rule rd64_wr64_off) (use bound in \<open>simp add: u\<close>)
  finally show "b_ptr (split_block m b s) (b_data b + s) = b_ptr m (b_data b + s)"
    by (simp add: sp b_data_def b_ptr_def ac_simps)
  have "rd64 m5 (b + 32) = rd64 m4 (b + 32)"
    unfolding m5_def by (rule rd64_wr64_off) simp
  also have "\<dots> = rd64 m3 (b + 32)"
    unfolding m4_def by (rule off0) simp
  also have "\<dots> = rd64 m2 (b + 32)"
    unfolding m3_def by (rule rd64_wr32_off) (use bound in \<open>simp add: u\<close>)
  also have "\<dots> = rd64 m1 (b + 32)"
    unfolding m2_def by (rule rd64_wr64_off) (use bound in \<open>simp add: u\<close>)
  also have "\<dots> = rd64 m (b + 32)"
    unfolding m1_def by (rule rd64_wr64_off) (use bound in \<open>simp add: u\<close>)
  finally show "b_ptr (split_block m b s) b = b_ptr m b"
    by (simp add: sp b_ptr_def)
qed


lemma path_nonzero: "path m a bs \<Longrightarrow> b \<in> set bs \<Longrightarrow> b \<noteq> 0"
  by (induction bs arbitrary: a) auto

lemma get_block_data [simp]: "get_block (b_data b) = b"
  by (simp add: get_block_def b_data_def BLOCK_SIZE_def)

lemma data_nonzero:
  assumes "unat b + 40 + n < 2 ^ 64"
  shows "b_data b \<noteq> 0"
proof -
  have "unat (b + 40) = unat b + 40"
    using assms by (simp add: unat_add_lem[THEN iffD1])
  then show ?thesis
    by (auto simp: b_data_def)
qed

lemma malloc_return_mem:
  "malloc_return st b k = Some (p, st') \<Longrightarrow> p = b_data b \<and> mem st' = mem st"
  by (auto simp: malloc_return_def log_handler_def Let_def)

subsection \<open>Evaluation of the concrete states\<close>

lemma two_blocks_run:
  "map_option
     (\<lambda>(rs, st). (base st, os_mmap st, b_next (mem st) 0x10000, b_next (mem st) 0x20000,
        b_ptr (mem st) 0x10000, b_size (mem st) 0x10000, b_free (mem st) 0x20000,
        b_free (mem st) 0x10000, alloc_method st))
     (run (boot [Some 0x10000, Some 0x20000]) [Allocate 8, Allocate 8])
   = Some (0x10000, [], 0x20000, 0, 0x10028, 8, 0, 0, 0)"
  by (simp add: op_defs field_defs mem_simps loop_simps Let_def)

lemma two_blocks_eval:
  "base two_blocks = 0x10000" "os_mmap two_blocks = []"
  "b_next (mem two_blocks) 0x10000 = 0x20000" "b_next (mem two_blocks) 0x20000 = 0"
  "b_ptr (mem two_blocks) 0x10000 = 0x10028" "b_size (mem two_blocks) 0x10000 = 8"
  "b_free (mem two_blocks) 0x20000 = 0" "b_free (mem two_blocks) 0x10000 = 0"
  "alloc_method two_blocks = 0"
  using two_blocks_run by (auto simp: two_blocks_def after_def split: option.splits)

lemma tail_released_run:
  "map_option (\<lambda>(rs, st). (base st, b_next (mem st) 0x10000))
     (run (boot [Some 0x10000, Some 0x20000]) [Allocate 8, Allocate 8, Release 0x20028])
   = Some (0x10000, 0)"
  by (simp add: op_defs field_defs mem_simps loop_simps Let_def)

lemma tail_released_eval:
  "base tail_released = 0x10000" "b_next (mem tail_released) 0x10000 = 0"
  using tail_released_run by (auto simp: tail_released_def after_def split: option.splits)

lemma first_released_run:
  "map_option
     (\<lambda>(rs, st). (base st, b_next (mem st) 0x10000, b_next (mem st) 0x20000,
        b_size (mem st) 0x10000, b_ptr (mem st) 0x10000, b_ptr (mem st) 0x10030))
     (run (boot [Some 0x10000, Some 0x20000]) [Allocate 100, Allocate 8, Release 0x10028])
   = Some (0x10000, 0x20000, 0, 104, 0x10028, 0)"
  by (simp add: op_defs field_defs mem_simps loop_simps Let_def)

lemma first_released_eval:
  "base first_released = 0x10000" "b_next (mem first_released) 0x10000 = 0x20000"
  "b_next (mem first_released) 0x20000 = 0" "b_size (mem first_released) 0x10000 = 104"
  "b_ptr (mem first_released) 0x10000 = 0x10028" "b_ptr (mem first_released) 0x10030 = 0"
  using first_released_run by (auto simp: first_released_def after_def split: option.splits)

lemma split_once_run:
  "map_option
     (\<lambda>(rs, st). (base st, b_next (mem st) 0x10000, b_next (mem st) 0x10030,
        b_next (mem st) 0x20000, b_size (mem st) 0x10030, b_ptr (mem st) 0x10030,
        b_free (mem st) 0x10030, b_free (mem st) 0x10000, alloc_method st))
     (run (boot [Some 0x10000, Some 0x20000])
        [Allocate 100, Allocate 8, Release 0x10028, Allocate 8])
   = Some (0x10000, 0x10030, 0x20000, 0, 56, 0, 1, 0, 0)"
  by (simp add: op_defs field_defs mem_simps loop_simps Let_def)

lemma split_once_eval:
  "base split_once = 0x10000" "b_next (mem split_once) 0x10000 = 0x10030"
  "b_next (mem split_once) 0x10030 = 0x20000" "b_next (mem split_once) 0x20000 = 0"
  "b_size (mem split_once) 0x10030 = 56" "b_ptr (mem split_once) 0x10030 = 0"
  "b_free (mem split_once) 0x10030 = 1" "b_free (mem split_once) 0x10000 = 0"
  "alloc_method split_once = 0"
  using split_once_run by (auto simp: split_once_def after_def split: option.splits)

lemma split_reused_run:
  "map_option
     (\<lambda>(rs, st). (rs, base st, b_next (mem st) 0x10000, b_next (mem st) 0x10030,
        b_next (mem st) 0x10060, b_next (mem st) 0x20000, b_size (mem st) 0x10030,
        b_ptr (mem st) 0x10030))
     (run (boot [Some 0x10000, Some 0x20000])
        [Allocate 100, Allocate 8, Release 0x10028, Allocate 8, Allocate 8])
   = Some ([0x10028, 0x20028, 0, 0x10028, 0x10058], 0x10000, 0x10030, 0x10060, 0x20000, 0, 8, 0)"
  by (simp add: op_defs field_defs mem_simps loop_simps Let_def)

lemma split_reused_eval:
  "base split_reused = 0x10000" "b_next (mem split_reused) 0x10000 = 0x10030"
  "b_next (mem split_reused) 0x10030 = 0x10060" "b_next (mem split_reused) 0x10060 = 0x20000"
  "b_next (mem split_reused) 0x20000 = 0"
  "b_size (mem split_reused) 0x10030 = 8" "b_ptr (mem split_reused) 0x10030 = 0"
  using split_reused_run by (auto simp: split_reused_def after_def split: option.splits)

section \<open>Policy selection\<close>

text \<open>
  Claim C9. \<^verbatim>\<open>malloc_control\<close> with a value outside 0, 1, 2 reports an error and changes
  nothing else: the policy keeps its value and memory, hence every block of the ledger,
  is untouched. With 0, 1 or 2 it sets exactly that policy and changes nothing else.
\<close>

theorem malloc_control_policy:
  "(m \<notin> {0, 1, 2} \<longrightarrow> malloc_control st m = st\<lparr>out := out st @ [''Error: invalid method'']\<rparr>)
   \<and> (m \<in> {0, 1, 2} \<longrightarrow> malloc_control st m = st\<lparr>alloc_method := m\<rparr>)"
  by (auto simp: malloc_control_def set_method_def)

text \<open>Claim C9, at the inputs 7 and 1 on a heap holding two blocks.\<close>

theorem malloc_control_policy_witness:
  "(7 :: int) \<notin> {0, 1, 2}
   \<and> malloc_control two_blocks 7 = two_blocks\<lparr>out := out two_blocks @ [''Error: invalid method'']\<rparr>
   \<and> alloc_method (malloc_control two_blocks 7) = 0
   \<and> mem (malloc_control two_blocks 7) = mem two_blocks
   \<and> (1 :: int) \<in> {0, 1, 2}
   \<and> malloc_control two_blocks 1 = two_blocks\<lparr>alloc_method := 1\<rparr>"
  using malloc_control_policy[of 7 two_blocks] malloc_control_policy[of 1 two_blocks]
  by (simp add: two_blocks_eval)

section \<open>Resizing when no memory is left\<close>

text \<open>
  Claim C7. Let \<open>p\<close> resolve to a block whose capacity is below the aligned new size
  and which cannot grow in place, so that \<^verbatim>\<open>my_realloc\<close> relocates. If the fresh
  allocation fails (the search finds no block and the system denies the mapping),
  \<^verbatim>\<open>my_realloc\<close> returns \<^verbatim>\<open>NULL\<close>, and the state differs from the one before the call
  only in the flag \<^verbatim>\<open>malloc_call\<close> and in the record of the denied request: memory and
  \<^verbatim>\<open>base\<close>, hence every header of the ledger and every payload byte, are unchanged,
  and \<open>p\<close> still resolves.
\<close>

theorem realloc_relocation_failure:
  assumes res: "p \<noteq> 0" "valid_addr st p = Some 1"
    and small: "b_size (mem st) (get_block p) < align n"
    and nogrow: "\<not> (b_next (mem st) (get_block p) \<noteq> 0
        \<and> b_free (mem st) (b_next (mem st) (get_block p)) \<noteq> 0
        \<and> align n \<le> b_size (mem st) (get_block p) + BLOCK_SIZE
              + b_size (mem st) (b_next (mem st) (get_block p)))"
    and miss: "find_block st (base st) (align n) = Some (0, l)"
    and denied: "os_mmap st = [] \<or> hd (os_mmap st) = None"
  shows "let st' = st\<lparr>malloc_call := 1, os_mmap := tl (os_mmap st),
                        os_calls := os_calls st @ [Mmap (align n) None]\<rparr>
         in my_realloc st p n = Some (0, st') \<and> mem st' = mem st \<and> base st' = base st
            \<and> alloc_method st' = alloc_method st \<and> oplog st' = oplog st
            \<and> valid_addr st' p = Some 1"
proof -
  let ?st = "st\<lparr>malloc_call := 1\<rparr>"
  let ?st' = "st\<lparr>malloc_call := 1, os_mmap := tl (os_mmap st),
                 os_calls := os_calls st @ [Mmap (align n) None]\<rparr>"
  have v: "valid_addr ?st p = Some 1"
    using res(2) by (simp add: valid_addr_frame[of ?st st])
  have b: "base st \<noteq> 0"
    using res(2) by (auto simp: valid_addr_def split: if_splits)
  have e: "extend_heap ?st l (align n) = (0, ?st')"
    using denied by (cases "os_mmap st") (auto simp: extend_heap_def mmap_def)
  have m: "my_malloc ?st (align n) = Some (0, ?st')"
    using b miss e by (simp add: my_malloc_def align_idem)
  have ng: "(b_next (mem st) (get_block p) \<noteq> 0
        \<and> b_free (mem st) (b_next (mem st) (get_block p)) \<noteq> 0
        \<and> align n \<le> b_size (mem st) (get_block p) + BLOCK_SIZE
              + b_size (mem st) (b_next (mem st) (get_block p))) = False"
    using nogrow by blast
  have sm: "(align n \<le> b_size (mem st) (get_block p)) = False"
    using small by simp
  have r: "my_realloc st p n = Some (0, ?st')"
    using v m res(1) by (simp add: my_realloc_def Let_def ng sm)
  have v': "valid_addr ?st' p = Some 1"
    using res(2) by (simp add: valid_addr_frame[of ?st' st])
  show ?thesis
    using r v' by (simp add: Let_def)
qed

text \<open>
  Claim C7, at a concrete input: two live blocks of 8 bytes, first fit, no mapping left;
  resizing the first block to 100 bytes.
\<close>

theorem realloc_relocation_failure_witness:
  "valid_addr two_blocks 0x10028 = Some 1
   \<and> b_size (mem two_blocks) (get_block 0x10028) < align 100
   \<and> b_free (mem two_blocks) (b_next (mem two_blocks) (get_block 0x10028)) = 0
   \<and> find_block two_blocks (base two_blocks) (align 100) = Some (0, 0x20000)
   \<and> os_mmap two_blocks = []
   \<and> my_realloc two_blocks 0x10028 100 =
         Some (0, two_blocks\<lparr>malloc_call := 1, os_mmap := [],
                              os_calls := os_calls two_blocks @ [Mmap 104 None]\<rparr>)
   \<and> valid_addr (two_blocks\<lparr>malloc_call := 1, os_mmap := [],
                      os_calls := os_calls two_blocks @ [Mmap 104 None]\<rparr>) 0x10028 = Some 1"
  using realloc_relocation_failure[of "0x10028" two_blocks 100 "0x20000"]
  by (simp add: two_blocks_eval valid_addr_def valid_walk.simps get_block_def BLOCK_SIZE_def
      align_def find_block_def first_fit.simps Let_def)

section \<open>Releasing an address\<close>

text \<open>
  Claim C6 says that releasing an address that does not resolve or was already freed
  is a silent no-op that leaves the ledger as it was. The code at a concrete input: three
  blocks of 8 bytes are allocated and the first two released. The first block is then already free, its address still
  resolves, and releasing it again is not a no-op: the block absorbs its free successor
  (capacity 8 becomes 16, the successor leaves the ledger) and a log record is written.
\<close>

theorem release_already_freed_counterexample:
  "map_option
     (\<lambda>(rs, st). (b_free (mem st) 0x10000, b_size (mem st) 0x10000, b_next (mem st) 0x10000,
        map_option (\<lambda>st'. (b_size (mem st') 0x10000, b_next (mem st') 0x10000,
                             oplog st' = oplog st))
          (my_free st 0x10028)))
     (run (boot [Some 0x10000, Some 0x20000, Some 0x30000])
        [Allocate 8, Allocate 8, Allocate 8, Release 0x10028, Release 0x20028])
   = Some (1, 8, 0x20000, Some (16, 0x30000, False))"
  by (simp add: op_defs field_defs mem_simps loop_simps Let_def)

text \<open>
  Claim C6, amended. On a well-formed ledger, an address that fails resolution (it is
  null, or no header of the ledger lies 40 bytes below it, or that header's pointer
  field differs from it) is ignored by \<^verbatim>\<open>my_free\<close>: the state is returned as it was,
  nothing is logged and nothing is reported.
\<close>

theorem release_unresolved_noop:
  "ledger st bs \<Longrightarrow>
   p = 0 \<or> get_block p \<notin> set bs \<or> b_ptr (mem st) (get_block p) \<noteq> p \<Longrightarrow>
   my_free st p = Some st"
  by (auto simp: my_free_def valid_addr_ledger)

text \<open>
  Claim C6, amended, at a concrete input: the second of two blocks, the tail, has been
  released and so removed from the ledger; releasing its address again changes nothing.
\<close>

theorem release_unresolved_noop_witness:
  "ledger tail_released [0x10000] \<and> get_block 0x20028 \<notin> set [0x10000 :: addr]
   \<and> my_free tail_released 0x20028 = Some tail_released"
  using release_unresolved_noop[of tail_released "[0x10000]" "0x20028"]
  by (simp add: tail_released_eval ledger_def get_block_def BLOCK_SIZE_def)

section \<open>Blocks carved out by a split\<close>

text \<open>
  Claim C10. Let \<open>b\<close> be a block of a well-formed ledger that lies inside the address
  space. (1) When \<^verbatim>\<open>split_block\<close> splits \<open>b\<close> at \<open>s\<close>, the carved block at
  \<open>b_data b + s\<close> becomes the free successor of \<open>b\<close> and its pointer field is not
  written: it holds what the payload held there. (2) When the search of \<^verbatim>\<open>my_malloc\<close>
  finds \<open>b\<close>, the call returns \<open>b_data b\<close> and leaves the pointer field of \<open>b\<close> as it
  was; only \<^verbatim>\<open>extend_heap\<close> sets it. (3) If the pointer field of \<open>b\<close> differs from
  \<open>b_data b\<close>, as for a reused carved block, resolution of \<open>b_data b\<close> fails:
  \<^verbatim>\<open>my_free\<close> changes nothing and \<^verbatim>\<open>my_realloc\<close> returns \<^verbatim>\<open>NULL\<close>. (4) If the field
  happens to equal \<open>b_data b\<close>, the address resolves.
\<close>

theorem split_block_ptr_unset:
  assumes led: "ledger st bs" and b: "b \<in> set bs"
    and ext: "unat b + 40 + unat (b_size (mem st) b) < 2 ^ 64"
  shows "(s \<le> b_size (mem st) b \<and> BLOCK_SIZE + 4 \<le> b_size (mem st) b - s \<longrightarrow>
            b_next (split_block (mem st) b s) b = b_data b + s
          \<and> b_free (split_block (mem st) b s) (b_data b + s) = 1
          \<and> b_ptr (split_block (mem st) b s) (b_data b + s) = b_ptr (mem st) (b_data b + s))
       \<and> (find_block st (base st) (align k) = Some (b, l) \<longrightarrow>
            map_option (\<lambda>(p, st'). (p, b_ptr (mem st') b)) (my_malloc st k)
              = Some (b_data b, b_ptr (mem st) b))
       \<and> (b_ptr (mem st) b \<noteq> b_data b \<longrightarrow>
            my_free st (b_data b) = Some st
          \<and> my_realloc st (b_data b) n = Some (0, st\<lparr>malloc_call := 1\<rparr>))
       \<and> (b_ptr (mem st) b = b_data b \<longrightarrow> valid_addr st (b_data b) = Some 1)"
proof (intro conjI impI)
  have ext': "unat b + 40 + unat (b_size (mem st) b) \<le> 2 ^ 64"
    using ext by simp
  have b0: "b \<noteq> 0"
    using led b by (auto simp: ledger_def dest: path_nonzero)
  have d0: "b_data b \<noteq> 0"
    using ext by (rule data_nonzero)
  {
    assume "s \<le> b_size (mem st) b \<and> BLOCK_SIZE + 4 \<le> b_size (mem st) b - s"
    then have fit: "s \<le> b_size (mem st) b" and room: "BLOCK_SIZE + 4 \<le> b_size (mem st) b - s"
      by simp_all
    show "b_next (split_block (mem st) b s) b = b_data b + s"
      by (rule split_block_new(1)[OF fit room ext'])
    show "b_free (split_block (mem st) b s) (b_data b + s) = 1"
      by (rule split_block_new(2)[OF fit room ext'])
    show "b_ptr (split_block (mem st) b s) (b_data b + s) = b_ptr (mem st) (b_data b + s)"
      by (rule split_block_new(3)[OF fit room ext'])
  }
  {
    assume f: "find_block st (base st) (align k) = Some (b, l)"
    have fit: "align k \<le> b_size (mem st) b"
      using f b0 by (rule find_block_fits)
    define m1 where "m1 = (if BLOCK_SIZE + 4 \<le> b_size (mem st) b - align k
                       then split_block (mem st) b (align k) else mem st)"
    have p1: "b_ptr m1 b = b_ptr (mem st) b"
      unfolding m1_def using split_block_new(4)[OF fit _ ext'] by simp
    have "rd64 (wr32 m1 (b + 24) 0) (b + 32) = rd64 m1 (b + 32)"
      by (rule rd64_wr32_off) simp
    then have p2: "b_ptr (set_free m1 b 0) b = b_ptr (mem st) b"
      using p1 by (simp add: b_ptr_def set_free_def)
    obtain p st' where r: "malloc_return (st\<lparr>mem := set_free m1 b 0\<rparr>) b k = Some (p, st')"
      by (simp add: malloc_return_def Let_def)
    have mm: "my_malloc st k = Some (p, st')"
      using ledger_base[OF led b] f b0 r by (simp add: my_malloc_def Let_def m1_def)
    show "map_option (\<lambda>(p, st'). (p, b_ptr (mem st') b)) (my_malloc st k)
              = Some (b_data b, b_ptr (mem st) b)"
      using malloc_return_mem[OF r] p2 by (simp add: mm)
  }
  {
    assume ne: "b_ptr (mem st) b \<noteq> b_data b"
    show "my_free st (b_data b) = Some st"
      using led ne by (simp add: my_free_def valid_addr_ledger[of _ bs])
    have "valid_addr (st\<lparr>malloc_call := 1\<rparr>) (b_data b) = Some 0"
      using led ne by (simp add: valid_addr_ledger[of _ bs])
    then show "my_realloc st (b_data b) n = Some (0, st\<lparr>malloc_call := 1\<rparr>)"
      using d0 by (simp add: my_realloc_def Let_def)
  }
  {
    assume "b_ptr (mem st) b = b_data b"
    then show "valid_addr st (b_data b) = Some 1"
      using led b d0 by (simp add: valid_addr_ledger[of _ bs])
  }
qed


text \<open>
  Claim C10 at concrete inputs: the split of the released 104-byte block at 8, the
  allocation that reuses the carved block at \<open>0x10030\<close> and returns \<open>0x10058\<close>, and
  the release and the resizing of that address, which the ledger does not resolve.
\<close>

theorem split_block_ptr_unset_witness:
  "ledger first_released [0x10000, 0x20000]
   \<and> 8 \<le> b_size (mem first_released) 0x10000
   \<and> BLOCK_SIZE + 4 \<le> b_size (mem first_released) 0x10000 - 8
   \<and> b_next (split_block (mem first_released) 0x10000 8) 0x10000 = 0x10030
   \<and> b_free (split_block (mem first_released) 0x10000 8) 0x10030 = 1
   \<and> b_ptr (split_block (mem first_released) 0x10000 8) 0x10030 = 0
   \<and> b_ptr (mem first_released) 0x10000 = b_data 0x10000
   \<and> valid_addr first_released 0x10028 = Some 1
   \<and> ledger split_once [0x10000, 0x10030, 0x20000]
   \<and> find_block split_once (base split_once) (align 8) = Some (0x10030, 0x10000)
   \<and> map_option (\<lambda>(p, st'). (p, b_ptr (mem st') 0x10030)) (my_malloc split_once 8)
         = Some (0x10058, 0)
   \<and> ledger split_reused [0x10000, 0x10030, 0x10060, 0x20000]
   \<and> b_ptr (mem split_reused) 0x10030 \<noteq> b_data 0x10030
   \<and> my_free split_reused 0x10058 = Some split_reused
   \<and> my_realloc split_reused 0x10058 16 = Some (0, split_reused\<lparr>malloc_call := 1\<rparr>)"
  using split_block_ptr_unset[of first_released "[0x10000, 0x20000]" "0x10000" 8 8 "0x10000" 16]
    split_block_ptr_unset[of split_once "[0x10000, 0x10030, 0x20000]" "0x10030" 8 8 "0x10000" 16]
    split_block_ptr_unset[of split_reused "[0x10000, 0x10030, 0x10060, 0x20000]" "0x10030" 8 8 "0x10000" 16]
  by (simp add: first_released_eval split_once_eval split_reused_eval ledger_def b_data_def
      BLOCK_SIZE_def align_def find_block_def first_fit.simps)

section \<open>Behaviour that departs from the specification\<close>

text \<open>
  Claim C1 says that a request that misses acquires a region of the aligned length plus
  the metadata overhead, so that the payload holds the bytes asked for. The code at the
  input \<^verbatim>\<open>my_malloc(4096)\<close> on an empty heap: the request misses, and the length asked
  of \<^verbatim>\<open>mmap\<close> is the aligned request, 4096, without the 40 bytes of the header. The
  region is \<open>[0x10000, 0x11000)\<close>, the block records a capacity of 4096, and the payload
  returned starts at \<open>0x10028\<close>, so its last 40 bytes lie outside the region acquired.
\<close>

theorem extend_heap_requests_payload_only:
  "map_option (\<lambda>(p, st). (p, b_size (mem st) 0x10000, os_calls st))
     (my_malloc (boot [Some 0x10000]) 4096)
   = Some (0x10028, 4096, [Mmap 4096 (Some 0x10000)])"
  by (simp add: op_defs field_defs mem_simps loop_simps Let_def)

text \<open>
  Claim C2 says that \<^verbatim>\<open>my_calloc\<close> clears every byte of the capacity it returns and
  no byte outside it. The code at the input \<^verbatim>\<open>my_calloc(1, 8)\<close>, after a block of 200
  bytes and a block of 8 bytes were allocated and the first released: the call reuses the
  first block, split
  into a block of capacity 8 at \<open>0x10000\<close> and a free remainder whose header is at
  \<open>0x10030\<close>, right behind the 8 payload bytes. The clearing loop stores 32 words of
  8 bytes from the payload on, and so wipes that header: its size, successor and free
  flag read 0 afterwards, where \<^verbatim>\<open>my_malloc(8)\<close> in the same state leaves 152, the
  block at \<open>0x20000\<close> and 1.
\<close>

theorem calloc_clears_beyond_block:
  "map_option
     (\<lambda>(rs, st).
        (map_option (\<lambda>(p, st'). (p, b_size (mem st') 0x10000, b_next (mem st') 0x10000,
            b_size (mem st') 0x10030, b_next (mem st') 0x10030, b_free (mem st') 0x10030))
           (my_malloc st 8),
         map_option (\<lambda>(p, st'). (p, b_size (mem st') 0x10000, b_next (mem st') 0x10000,
            b_size (mem st') 0x10030, b_next (mem st') 0x10030, b_free (mem st') 0x10030))
           (my_calloc st 1 8)))
     (run (boot [Some 0x10000, Some 0x20000]) [Allocate 200, Allocate 8, Release 0x10028])
   = Some (Some (0x10028, 8, 0x10030, 152, 0x20000, 1), Some (0x10028, 8, 0x10030, 0, 0, 0))"
  by (simp add: op_defs field_defs mem_simps loop_simps Let_def zero_fill_def upt_conv_Cons)

text \<open>
  Claim C3 says that best fit returns the sufficient free block of least excess, and so
  returns a block whenever a sufficient free block exists. The code at a concrete input:
  a block of 8192 bytes and a block of 8 bytes are allocated, the first is released, and
  the policy is set to 1 (best fit). The ledger
  then holds a free block of capacity 8192, yet the search for 8 bytes returns \<^verbatim>\<open>NULL\<close>,
  because a candidate is only taken when its excess is below \<^verbatim>\<open>PAGESIZE\<close>; the next
  \<^verbatim>\<open>my_malloc(8)\<close> extends the heap with a third mapping.
\<close>

theorem best_fit_ignores_large_free_block:
  "map_option
     (\<lambda>(rs, st). (rs, alloc_method st, b_free (mem st) 0x10000, b_size (mem st) 0x10000,
        find_block st (base st) (align 8),
        map_option (\<lambda>(p, st'). (p, os_calls st')) (my_malloc st 8)))
     (run (boot [Some 0x10000, Some 0x20000, Some 0x30000])
        [Allocate 8192, Allocate 8, Release 0x10028, SetPolicy 1])
   = Some ([0x10028, 0x20028, 0, 0], 1, 1, 8192, Some (0, 0x20000),
        Some (0x30028, [Mmap 8192 (Some 0x10000), Mmap 8 (Some 0x20000), Mmap 8 (Some 0x30000)]))"
  by (simp add: op_defs field_defs mem_simps loop_simps Let_def)

text \<open>
  Claim C4 says that after every public operation no two adjacent blocks of the ledger
  are both free. The code at a concrete input: three blocks of 8 bytes are allocated, then
  the first and the second are released. \<^verbatim>\<open>my_free\<close> merges a block with its successors only, so
  after the last call the head of the ledger and its successor are both marked free,
  the state that the scan of \<^verbatim>\<open>check_heap\<close> reports as an anomaly.
\<close>

theorem release_leaves_adjacent_free_blocks:
  "map_option
     (\<lambda>(rs, st). (rs, base st, b_free (mem st) 0x10000, b_next (mem st) 0x10000,
        b_free (mem st) 0x20000, check_heap_scan st))
     (run (boot [Some 0x10000, Some 0x20000, Some 0x30000])
        [Allocate 8, Allocate 8, Allocate 8, Release 0x10028, Release 0x20028])
   = Some ([0x10028, 0x20028, 0x30028, 0, 0], 0x10000, 1, 0x20000, 1,
        Some [Adjacent_free 0x10000 0x20000])"
  by (simp add: op_defs field_defs mem_simps loop_simps Let_def check_heap_scan_def check_walk.simps)

text \<open>
  Claim C5 says that a resize which can grow in place returns the same address with a
  capacity of at least the aligned new size. The code at a concrete input: a block of 200
  bytes is allocated and shrunk to 8, which splits off a free successor of capacity 152.
  Growing it to 104 bytes meets the test
  for growth in place (8 + 40 + 152 covers 104), but \<^verbatim>\<open>fusion\<close> does not merge a
  successor that is the last block: the call returns the same address and the capacity
  is still 8.
\<close>

theorem realloc_in_place_growth_too_small:
  "map_option
     (\<lambda>(rs, st). (rs, b_size (mem st) 0x10000, b_next (mem st) 0x10000,
        b_free (mem st) 0x10030, b_size (mem st) 0x10030,
        align 104 \<le> b_size (mem st) 0x10000 + BLOCK_SIZE + b_size (mem st) 0x10030,
        map_option (\<lambda>(r, st'). (r, b_size (mem st') 0x10000, align 104)) (my_realloc st 0x10028 104)))
     (run (boot [Some 0x10000]) [Allocate 200, Resize 0x10028 8])
   = Some ([0x10028, 0x10028], 8, 0x10030, 1, 152, True, Some (0x10028, 8, 104))"
  by (simp add: op_defs field_defs mem_simps loop_simps Let_def)

end
